theory Spec2Isabelle
  imports Complex_Main "HOL-Library.Sublist"
begin

section \<open>Python values used by the feature extractor\<close>

text \<open>
  A Python string is a sequence of code points. The model covers the code points
  0..255, one \<open>char\<close> each, so \<open>length\<close> is Python's \<open>len\<close> on that range. The
  character classes below are Python's \<open>str.isalpha\<close>, \<open>str.isdigit\<close>,
  \<open>str.isspace\<close> and the classes \<open>\d\<close>, \<open>\w\<close>, \<open>\s\<close> of the \<open>re\<close> module on
  those code points. Python floats are modelled by the rationals they denote, with
  exact arithmetic.
\<close>

definition code :: "char \<Rightarrow> nat" where
  "code c = of_char c"

definition isalpha :: "char \<Rightarrow> bool" where
  "isalpha c = (let n = code c in
     (65 \<le> n \<and> n \<le> 90) \<or> (97 \<le> n \<and> n \<le> 122) \<or> n = 170 \<or> n = 181 \<or> n = 186
     \<or> (192 \<le> n \<and> n \<le> 214) \<or> (216 \<le> n \<and> n \<le> 246) \<or> 248 \<le> n)"

definition isdigit :: "char \<Rightarrow> bool" where
  "isdigit c = (let n = code c in
     (48 \<le> n \<and> n \<le> 57) \<or> n = 178 \<or> n = 179 \<or> n = 185)"

definition isspace :: "char \<Rightarrow> bool" where
  "isspace c = (let n = code c in
     (9 \<le> n \<and> n \<le> 13) \<or> (28 \<le> n \<and> n \<le> 32) \<or> n = 133 \<or> n = 160)"

definition re_digit :: "char \<Rightarrow> bool" where
  \<comment> \<open>\<open>\d\<close>: the decimal digits\<close>
  "re_digit c = (let n = code c in 48 \<le> n \<and> n \<le> 57)"

definition re_word :: "char \<Rightarrow> bool" where
  \<comment> \<open>\<open>\w\<close>: alphanumeric code points and the underscore\<close>
  "re_word c = (let n = code c in
     isalpha c \<or> isdigit c \<or> n = 188 \<or> n = 189 \<or> n = 190 \<or> n = 95)"

definition re_hex :: "char \<Rightarrow> bool" where
  \<comment> \<open>\<open>[0-9a-fA-F]\<close>\<close>
  "re_hex c = (let n = code c in
     (48 \<le> n \<and> n \<le> 57) \<or> (97 \<le> n \<and> n \<le> 102) \<or> (65 \<le> n \<and> n \<le> 70))"

definition lower :: "char \<Rightarrow> char" where
  \<comment> \<open>case folding of the ASCII letters, all that the case-insensitive patterns contain\<close>
  "lower c = (let n = code c in if 65 \<le> n \<and> n \<le> 90 then char_of (n + 32) else c)"

definition strip :: "string \<Rightarrow> string" where
  "strip s = rev (dropWhile isspace (rev (dropWhile isspace s)))"

subsection \<open>Regular expressions and \<open>re.search\<close>\<close>

datatype regex =
    Lit char
  | Cls "char \<Rightarrow> bool"
  | Cat regex regex
  | Alt regex regex
  | Star regex
  | Eol

text \<open>
  \<open>rmatch r s\<close> lists what is left of \<open>s\<close> after each way of matching \<open>r\<close> at its
  start. \<open>Eol\<close> is \<open>$\<close>: the end of the string, or just before a newline that
  ends it. An iteration of \<open>Star\<close> that consumes nothing is not repeated.
\<close>

fun rmatch :: "regex \<Rightarrow> string \<Rightarrow> string list" where
  "rmatch (Lit c) s = (case s of [] \<Rightarrow> [] | x # xs \<Rightarrow> if x = c then [xs] else [])"
| "rmatch (Cls p) s = (case s of [] \<Rightarrow> [] | x # xs \<Rightarrow> if p x then [xs] else [])"
| "rmatch (Cat a b) s = concat (map (rmatch b) (rmatch a s))"
| "rmatch (Alt a b) s = rmatch a s @ rmatch b s"
| "rmatch (Star a) s =
     s # concat (map (rmatch (Star a)) (filter (\<lambda>t. length t < length s) (rmatch a s)))"
| "rmatch Eol s = (if s = [] \<or> s = [CHR 0x0A] then [s] else [])"

fun re_search :: "regex \<Rightarrow> string \<Rightarrow> bool" where
  "re_search r [] = (rmatch r [] \<noteq> [])"
| "re_search r (c # cs) = (rmatch r (c # cs) \<noteq> [] \<or> re_search r cs)"

definition Plus :: "regex \<Rightarrow> regex" where
  "Plus r = Cat r (Star r)"

fun str :: "string \<Rightarrow> regex" where
  "str [] = Star (Cls (\<lambda>_. False))"
| "str [c] = Lit c"
| "str (c # cs) = Cat (Lit c) (str cs)"

fun istr :: "string \<Rightarrow> regex" where
  \<comment> \<open>a literal under \<open>re.I\<close>\<close>
  "istr [] = Star (Cls (\<lambda>_. False))"
| "istr [c] = Cls (\<lambda>x. lower x = lower c)"
| "istr (c # cs) = Cat (Cls (\<lambda>x. lower x = lower c)) (istr cs)"

fun alts :: "regex list \<Rightarrow> regex" where
  "alts [] = Cls (\<lambda>_. False)"
| "alts [r] = r"
| "alts (r # rs) = Alt r (alts rs)"

definition abnormal_patterns :: "regex list" where
  "abnormal_patterns =
     [ Lit CHR ''@'',
       Cat (str ''//'') (Cat (Plus (Cls re_word)) (Lit CHR ''@'')),
       Cat (Plus (Cls re_digit)) (Cat (Lit CHR ''.'') (Cat (Plus (Cls re_digit))
         (Cat (Lit CHR ''.'') (Cat (Plus (Cls re_digit)) (Cat (Lit CHR ''.'') (Plus (Cls re_digit))))))),
       Cat (Lit CHR ''.'') (Cat (alts [str ''exe'', str ''zip'', str ''rar'', str ''dll'', str ''js'']) Eol) ]"

section \<open>The extractor's state and its collaborators\<close>

datatype exn = AttributeError | UnboundLocalError | ZeroDivisionError | Raised string

definition exn_str :: "exn \<Rightarrow> string" where
  \<comment> \<open>\<open>str(e)\<close>\<close>
  "exn_str e = (case e of
       AttributeError \<Rightarrow> [CHR 0x27] @ ''NoneType'' @ [CHR 0x27] @ '' object has no attribute ''
                          @ [CHR 0x27] @ ''strip'' @ [CHR 0x27]
     | UnboundLocalError \<Rightarrow> ''local variable '' @ [CHR 0x27] @ ''redirect_0'' @ [CHR 0x27]
                          @ '' referenced before assignment''
     | ZeroDivisionError \<Rightarrow> ''float division by zero''
     | Raised m \<Rightarrow> m)"

definition then_do :: "exn + 'a \<Rightarrow> ('a \<Rightarrow> exn + 'b) \<Rightarrow> exn + 'b" where
  \<comment> \<open>sequencing: an exception of the first computation skips the rest\<close>
  "then_do m f = (case m of Inl e \<Rightarrow> Inl e | Inr v \<Rightarrow> f v)"

datatype pyval = PInt int | PFloat rat | PStr string | PDict "(string \<times> pyval) list"

type_synonym dict = "(string \<times> pyval) list"

text \<open>The result of \<open>urlparse\<close>, with the two components the extractor reads.\<close>

record parsed =
  scheme :: string
  netloc :: string

text \<open>
  A tag of the parsed document: its name, its single-valued attributes, the values of
  its multi-valued \<open>rel\<close> attribute (none when the attribute is absent), and its
  \<open>.string\<close>, which is \<open>None\<close> when the tag has no single text to give (an
  empty tag, or one with several children).
\<close>

record tag =
  tname :: string
  attrs :: "(string \<times> string) list"
  rel :: "string list"
  tstring :: "string option"

text \<open>
  The document as the extractor observes it: its tags in document order,
  its serialisation \<open>soup.decode()\<close> and its text \<open>soup.get_text()\<close>.
\<close>

record soup =
  soup_tags :: "tag list"
  soup_decode :: string
  soup_get_text :: string

text \<open>A response: its body, its status and the responses of the redirects followed.\<close>

record response =
  resp_text :: string
  status_code :: nat
  history :: "nat list"

text \<open>
  The functions of \<open>requests\<close>, \<open>bs4\<close>, \<open>urllib.parse\<close> and \<open>tld\<close> that the
  extractor calls are parameters of the model; each may raise.
\<close>

record env =
  requests_get :: "string \<Rightarrow> exn + response"
  BeautifulSoup :: "string \<Rightarrow> exn + soup"
  urlparse :: "string \<Rightarrow> exn + parsed"
  urljoin :: "string \<Rightarrow> string \<Rightarrow> exn + string"
  get_tld :: "string \<Rightarrow> exn + string option"

record extractor =
  url :: string
  parsed_url :: "parsed option"
  domain :: string
  soup :: "soup option"
  page_content :: "string option"
  response :: "response option"
  error :: "string option"

definition response_ok :: "response \<Rightarrow> bool" where
  \<comment> \<open>the truth value of a \<open>requests\<close> response: no 4xx or 5xx status\<close>
  "response_ok r = (\<not> (400 \<le> status_code r \<and> status_code r < 600))"

definition truthy :: "string option \<Rightarrow> bool" where
  "truthy v = (case v of None \<Rightarrow> False | Some s \<Rightarrow> s \<noteq> [])"

definition py_or :: "string option \<Rightarrow> string option \<Rightarrow> string option" where
  "py_or a b = (if truthy a then a else b)"

definition safe_parse :: "env \<Rightarrow> string \<Rightarrow> parsed option" where
  "safe_parse E u = (case urlparse E u of Inl e \<Rightarrow> None | Inr p \<Rightarrow> Some p)"

definition init :: "env \<Rightarrow> string \<Rightarrow> extractor" where
  "init E u =
     (let p = safe_parse E u;
          x = \<lparr> url = u, parsed_url = p,
                domain = (case p of Some q \<Rightarrow> netloc q | None \<Rightarrow> []),
                soup = None, page_content = None, response = None, error = None \<rparr>
      in case requests_get E u of
           Inl e \<Rightarrow> x\<lparr> error := Some (exn_str e) \<rparr>
         | Inr r \<Rightarrow>
             (case BeautifulSoup E (resp_text r) of
                Inl e \<Rightarrow> x\<lparr> response := Some r, page_content := Some (resp_text r),
                            error := Some (exn_str e) \<rparr>
              | Inr d \<Rightarrow> x\<lparr> response := Some r, page_content := Some (resp_text r),
                            soup := Some d \<rparr>))"

section \<open>Features of the URL\<close>

definition get_url_length :: "extractor \<Rightarrow> int" where
  "get_url_length x = (if url x \<noteq> [] then int (length (url x)) else 0)"

definition get_domain_length :: "extractor \<Rightarrow> int" where
  "get_domain_length x = (if domain x \<noteq> [] then int (length (domain x)) else 0)"

definition get_tld_length :: "env \<Rightarrow> extractor \<Rightarrow> int" where
  "get_tld_length E x =
     (case get_tld E (url x) of
        Inl e \<Rightarrow> 0
      | Inr t \<Rightarrow> (if truthy t then int (length (the t)) else 0))"

definition get_letter_ratio_in_url :: "extractor \<Rightarrow> rat" where
  "get_letter_ratio_in_url x =
     (let letters = length (filter isalpha (url x))
      in if url x \<noteq> [] then of_nat letters / of_nat (length (url x)) else 0)"

definition get_digit_ratio_in_url :: "extractor \<Rightarrow> rat" where
  "get_digit_ratio_in_url x =
     (let digits = length (filter isdigit (url x))
      in if url x \<noteq> [] then of_nat digits / of_nat (length (url x)) else 0)"

definition is_https :: "extractor \<Rightarrow> int" where
  "is_https x =
     (case parsed_url x of None \<Rightarrow> 0 | Some p \<Rightarrow> if scheme p = ''https'' then 1 else 0)"

definition is_abnormal_url :: "extractor \<Rightarrow> int" where
  "is_abnormal_url x =
     (if url x = [] then 0
      else if list_ex (\<lambda>p. re_search p (url x)) abnormal_patterns then 1 else 0)"

definition py_div :: "rat \<Rightarrow> rat \<Rightarrow> exn + rat" where
  "py_div a b = (if b = 0 then Inl ZeroDivisionError else Inr (a / b))"

definition letter_to_digit_ratio :: "extractor \<Rightarrow> exn + rat" where
  \<comment> \<open>the expression stored under \<open>LetterToDigitRatio\<close>; \<open>1e-5\<close> is \<open>1/100000\<close>\<close>
  "letter_to_digit_ratio x =
     py_div (get_letter_ratio_in_url x) (get_digit_ratio_in_url x + 1 / 100000)"

section \<open>Features of the page\<close>

definition find_all :: "string list \<Rightarrow> soup \<Rightarrow> tag list" where
  "find_all names d = filter (\<lambda>t. tname t \<in> set names) (soup_tags d)"

definition get :: "tag \<Rightarrow> string \<Rightarrow> string option" where
  "get t k = map_of (attrs t) k"

fun join :: "string list \<Rightarrow> string" where
  "join [] = []"
| "join [v] = v"
| "join (v # vs) = v @ '' '' @ join vs"

definition rel_is :: "string \<Rightarrow> tag \<Rightarrow> bool" where
  \<comment> \<open>a search for \<open>{'rel': v}\<close>: one of the values, or all of them joined, is \<open>v\<close>\<close>
  "rel_is v t = (list_ex (\<lambda>i. i = v) (rel t) \<or> (rel t \<noteq> [] \<and> join (rel t) = v))"

definition rel_search :: "regex \<Rightarrow> tag \<Rightarrow> bool" where
  \<comment> \<open>a search for \<open>rel=re.compile(...)\<close>\<close>
  "rel_search r t = (list_ex (re_search r) (rel t) \<or> (rel t \<noteq> [] \<and> re_search r (join (rel t))))"

definition get_no_of_images :: "extractor \<Rightarrow> int" where
  "get_no_of_images x =
     (case soup x of None \<Rightarrow> 0 | Some d \<Rightarrow> int (length (find_all [''img''] d)))"

definition get_no_of_js :: "extractor \<Rightarrow> int" where
  "get_no_of_js x =
     (case soup x of None \<Rightarrow> 0 | Some d \<Rightarrow> int (length (find_all [''script''] d)))"

definition get_no_of_css :: "extractor \<Rightarrow> int" where
  "get_no_of_css x =
     (case soup x of None \<Rightarrow> 0
      | Some d \<Rightarrow> int (length (filter (rel_is ''stylesheet'') (find_all [''link''] d))))"

definition base_url_of :: "parsed \<Rightarrow> string" where
  "base_url_of p = scheme p @ ''://'' @ netloc p"

fun self_ref_loop :: "env \<Rightarrow> string \<Rightarrow> tag list \<Rightarrow> int \<Rightarrow> exn + int" where
  "self_ref_loop E base_url [] count = Inr count"
| "self_ref_loop E base_url (t # ts) count =
     (let u = py_or (get t ''href'') (get t ''src'')
      in if truthy u then
           (case urljoin E base_url (the u) of
              Inl e \<Rightarrow> Inl e
            | Inr full \<Rightarrow>
                if prefix base_url full then self_ref_loop E base_url ts (count + 1)
                else self_ref_loop E base_url ts count)
         else self_ref_loop E base_url ts count)"

definition get_no_of_self_ref :: "env \<Rightarrow> extractor \<Rightarrow> exn + int" where
  "get_no_of_self_ref E x =
     (case soup x of None \<Rightarrow> Inr 0
      | Some d \<Rightarrow>
          (case parsed_url x of None \<Rightarrow> Inr 0
           | Some p \<Rightarrow>
               self_ref_loop E (base_url_of p) (find_all [''a'', ''link'', ''script'', ''img''] d) 0))"

fun external_ref_loop :: "env \<Rightarrow> string \<Rightarrow> tag list \<Rightarrow> int \<Rightarrow> exn + int" where
  "external_ref_loop E base_url [] count = Inr count"
| "external_ref_loop E base_url (t # ts) count =
     (let u = py_or (get t ''href'') (get t ''src'')
      in if truthy u then
           (case urljoin E base_url (the u) of
              Inl e \<Rightarrow> Inl e
            | Inr full \<Rightarrow>
                if prefix base_url full then external_ref_loop E base_url ts count
                else (case urlparse E full of
                        Inl e \<Rightarrow> Inl e
                      | Inr q \<Rightarrow>
                          if netloc q \<noteq> [] then external_ref_loop E base_url ts (count + 1)
                          else external_ref_loop E base_url ts count))
         else external_ref_loop E base_url ts count)"

definition get_no_of_external_ref :: "env \<Rightarrow> extractor \<Rightarrow> exn + int" where
  "get_no_of_external_ref E x =
     (case soup x of None \<Rightarrow> Inr 0
      | Some d \<Rightarrow>
          (case parsed_url x of None \<Rightarrow> Inr 0
           | Some p \<Rightarrow>
               external_ref_loop E (base_url_of p) (find_all [''a'', ''link'', ''script'', ''img''] d) 0))"

definition obfuscation_patterns :: "regex list" where
  "obfuscation_patterns =
     [ Cat (Lit CHR ''%'') (Cat (Cls re_hex) (Cls re_hex)),
       Cat (Lit CHR 0x5C) (Cat (Lit CHR ''x'') (Cat (Cls re_hex) (Cls re_hex))),
       Cat (str ''&#x'') (Cat (Plus (Cls re_hex)) (Lit CHR '';'')),
       str ''javascript:'',
       str ''eval('',
       str ''document.write'',
       str ''fromCharCode'' ]"

definition has_obfuscation :: "extractor \<Rightarrow> int" where
  "has_obfuscation x =
     (if \<not> truthy (page_content x) then 0
      else if list_ex (\<lambda>p. re_search p (the (page_content x))) obfuscation_patterns then 1 else 0)"

definition title :: "soup \<Rightarrow> tag option" where
  \<comment> \<open>\<open>soup.title\<close>: the first \<open>title\<close> tag\<close>
  "title d = (case find_all [''title''] d of [] \<Rightarrow> None | t # _ \<Rightarrow> Some t)"

definition has_title :: "extractor \<Rightarrow> exn + int" where
  "has_title x =
     (case soup x of None \<Rightarrow> Inr 0
      | Some d \<Rightarrow>
          (case title d of None \<Rightarrow> Inr 0
           | Some t \<Rightarrow>
               (case tstring t of
                  None \<Rightarrow> Inl AttributeError
                | Some s \<Rightarrow> Inr (if strip s \<noteq> [] then 1 else 0))))"

definition has_description :: "extractor \<Rightarrow> int" where
  "has_description x =
     (let found = (case soup x of None \<Rightarrow> []
                   | Some d \<Rightarrow> filter (\<lambda>t. get t ''name'' = Some ''description'') (find_all [''meta''] d))
      in case found of [] \<Rightarrow> 0
         | t # _ \<Rightarrow> if strip (case get t ''content'' of None \<Rightarrow> [] | Some c \<Rightarrow> c) \<noteq> [] then 1 else 0)"

definition has_submit_button :: "extractor \<Rightarrow> int" where
  "has_submit_button x =
     (case soup x of None \<Rightarrow> 0
      | Some d \<Rightarrow>
          if filter (\<lambda>t. get t ''type'' = Some ''submit'') (find_all [''input''] d) \<noteq> []
             \<or> find_all [''button''] d \<noteq> [] then 1 else 0)"

definition social_pattern :: regex where
  "social_pattern = alts [istr ''facebook'', istr ''twitter'', istr ''linkedin'',
                          istr ''instagram'', istr ''youtube'', istr ''pinterest'']"

definition has_social_net :: "extractor \<Rightarrow> int" where
  "has_social_net x =
     (case soup x of None \<Rightarrow> 0
      | Some d \<Rightarrow> if re_search social_pattern (soup_decode d) then 1 else 0)"

definition has_favicon :: "extractor \<Rightarrow> int" where
  "has_favicon x =
     (case soup x of None \<Rightarrow> 0
      | Some d \<Rightarrow>
          if filter (rel_search (istr ''icon'')) (find_all [''link''] d) \<noteq> [] then 1 else 0)"

definition copyright_pattern :: regex where
  "copyright_pattern = Alt (istr ''copyright'') (Lit CHR 0xA9)"

definition has_copyright_info :: "extractor \<Rightarrow> int" where
  "has_copyright_info x =
     (case soup x of None \<Rightarrow> 0
      | Some d \<Rightarrow> if re_search copyright_pattern (soup_get_text d) then 1 else 0)"

definition popup_pattern :: regex where
  "popup_pattern = Cat (str ''window.open'') (Cat (Star (Cls isspace)) (Lit CHR ''(''))"

definition has_popup_window :: "extractor \<Rightarrow> int" where
  "has_popup_window x =
     (if truthy (page_content x) \<and> re_search popup_pattern (the (page_content x)) then 1 else 0)"

definition has_iframe :: "extractor \<Rightarrow> int" where
  "has_iframe x =
     (case soup x of None \<Rightarrow> 0 | Some d \<Rightarrow> if find_all [''iframe''] d \<noteq> [] then 1 else 0)"

section \<open>The redirect state and the feature record\<close>

definition get_redirect_value :: "extractor \<Rightarrow> int" where
  "get_redirect_value x =
     (case response x of
        None \<Rightarrow> 0
      | Some r \<Rightarrow> if \<not> response_ok r then 0 else if length (history r) > 0 then 1 else - 1)"

definition redirect_pair :: "int \<Rightarrow> (int \<times> int) option" where
  \<comment> \<open>the \<open>if\<close>/\<open>elif\<close> chain; \<open>None\<close> when no branch assigns the two variables\<close>
  "redirect_pair redirect_value =
     (if redirect_value = - 1 then Some (0, 0)
      else if redirect_value = 0 then Some (1, 0)
      else if redirect_value = 1 then Some (0, 1)
      else None)"

definition redirect_vars :: "int \<Rightarrow> exn + int \<times> int" where
  \<comment> \<open>reading the two variables after the chain\<close>
  "redirect_vars redirect_value =
     (case redirect_pair redirect_value of None \<Rightarrow> Inl UnboundLocalError | Some p \<Rightarrow> Inr p)"

text \<open>
  The entries of the dictionary literal are evaluated in order; the first one that
  raises ends the call. The entries that cannot raise are written in place.
\<close>

definition extract_model_features :: "env \<Rightarrow> extractor \<Rightarrow> exn + dict" where
  "extract_model_features E x =
     (if truthy (error x) then Inr [(''error'', PStr (the (error x)))]
      else
        then_do (get_no_of_self_ref E x) (\<lambda>self_ref.
        then_do (get_no_of_external_ref E x) (\<lambda>external_ref.
        then_do (has_title x) (\<lambda>title_flag.
        then_do (letter_to_digit_ratio x) (\<lambda>ratio.
        then_do (redirect_vars (get_redirect_value x)) (\<lambda>(redirect_0, redirect_1).
          Inr [ (''URLLength'', PInt (get_url_length x)),
                (''DomainLength'', PInt (get_domain_length x)),
                (''TLDLength'', PInt (get_tld_length E x)),
                (''NoOfImage'', PInt (get_no_of_images x)),
                (''NoOfJS'', PInt (get_no_of_js x)),
                (''NoOfCSS'', PInt (get_no_of_css x)),
                (''NoOfSelfRef'', PInt self_ref),
                (''NoOfExternalRef'', PInt external_ref),
                (''IsHTTPS'', PInt (is_https x)),
                (''HasObfuscation'', PInt (has_obfuscation x)),
                (''HasTitle'', PInt title_flag),
                (''HasDescription'', PInt (has_description x)),
                (''HasSubmitButton'', PInt (has_submit_button x)),
                (''HasSocialNet'', PInt (has_social_net x)),
                (''HasFavicon'', PInt (has_favicon x)),
                (''HasCopyrightInfo'', PInt (has_copyright_info x)),
                (''popUpWindow'', PInt (has_popup_window x)),
                (''Iframe'', PInt (has_iframe x)),
                (''Abnormal_URL'', PInt (is_abnormal_url x)),
                (''LetterToDigitRatio'', PFloat ratio),
                (''Redirect_0'', PInt redirect_0),
                (''Redirect_1'', PInt redirect_1) ]))))))"

section \<open>The prediction endpoints\<close>

definition FEATURE_COLUMNS :: "string list" where
  "FEATURE_COLUMNS =
     [ ''URLLength'', ''DomainLength'', ''TLDLength'', ''NoOfImage'', ''NoOfJS'', ''NoOfCSS'',
       ''NoOfSelfRef'', ''NoOfExternalRef'', ''IsHTTPS'', ''HasObfuscation'', ''HasTitle'',
       ''HasDescription'', ''HasSubmitButton'', ''HasSocialNet'', ''HasFavicon'',
       ''HasCopyrightInfo'', ''popUpWindow'', ''Iframe'', ''Abnormal_URL'',
       ''LetterToDigitRatio'', ''Redirect_0'', ''Redirect_1'' ]"

definition data_frame :: "dict \<Rightarrow> string list \<Rightarrow> pyval option list" where
  \<comment> \<open>the one-row frame: the record's value for each column, in the columns' order\<close>
  "data_frame features columns = map (map_of features) columns"

text \<open>
  The scaler and the booster are loaded from files that are not part of the sources:
  \<open>scorer\<close> stands for transforming the row and predicting from it, and gives
  \<open>pred[0]\<close> or raises.
\<close>

type_synonym scorer = "pyval option list \<Rightarrow> exn + rat"

definition py_round :: "rat \<Rightarrow> int" where
  \<comment> \<open>Python's \<open>round\<close> with one argument: to the nearest integer, a tie to the even one\<close>
  "py_round p =
     (let f = \<lfloor>p\<rfloor>; d = p - of_int f
      in if d < 1 / 2 then f else if 1 / 2 < d then f + 1 else if even f then f else f + 1)"

definition result_of :: "int \<Rightarrow> string" where
  "result_of label = (if label = 1 then ''Legitimate'' else ''Phishing'')"

definition predict :: "scorer \<Rightarrow> dict \<Rightarrow> dict" where
  "predict S features =
     (case S (data_frame features FEATURE_COLUMNS) of
        Inl e \<Rightarrow> [(''error'', PStr (exn_str e))]
      | Inr p \<Rightarrow>
          (let label = py_round p
           in [(''prediction'', PInt label), (''result'', PStr (result_of label))]))"

definition predict_from_url :: "env \<Rightarrow> scorer \<Rightarrow> string \<Rightarrow> dict" where
  "predict_from_url E S u =
     (let extractor = init E u
      in case extract_model_features E extractor of
           Inl e \<Rightarrow> [(''error'', PStr (exn_str e))]
         | Inr features \<Rightarrow>
             if ''error'' \<in> set (map fst features)
             then [(''error'', the (map_of features ''error''))]
             else (case S (data_frame features FEATURE_COLUMNS) of
                     Inl e \<Rightarrow> [(''error'', PStr (exn_str e))]
                   | Inr p \<Rightarrow>
                       (let label = py_round p
                        in [(''features'', PDict features), (''prediction'', PInt label),
                            (''result'', PStr (result_of label))])))"

section \<open>Sample pages\<close>

text \<open>
  The examples below run the extractor on concrete pages. Their environment answers
  every fetch with a given outcome and every parse with a given document, and
  tabulates what \<open>urlparse\<close>, \<open>urljoin\<close> and \<open>get_tld\<close> return on the strings
  that occur in them.
\<close>

definition tabulated :: "('a \<times> 'b) list \<Rightarrow> 'a \<Rightarrow> exn + 'b" where
  "tabulated table k =
     (case map_of table k of None \<Rightarrow> Inl (Raised ''not tabulated'') | Some v \<Rightarrow> Inr v)"

definition sample_env :: "exn + response \<Rightarrow> soup \<Rightarrow> env" where
  "sample_env fetched doc =
     \<lparr> requests_get = (\<lambda>u. fetched),
       BeautifulSoup = (\<lambda>body. Inr doc),
       urlparse = tabulated
         [ (''https://example.com/'', \<lparr> scheme = ''https'', netloc = ''example.com'' \<rparr>),
           (''https://example.com/logo.png'', \<lparr> scheme = ''https'', netloc = ''example.com'' \<rparr>),
           (''https://www.iana.org/domains/example'', \<lparr> scheme = ''https'', netloc = ''www.iana.org'' \<rparr>),
           (''https://example.com.evil.com/x'', \<lparr> scheme = ''https'', netloc = ''example.com.evil.com'' \<rparr>),
           (''http://unreachable.example/'', \<lparr> scheme = ''http'', netloc = ''unreachable.example'' \<rparr>) ],
       urljoin = (\<lambda>base ref. tabulated
         [ ((''https://example.com'', ''/logo.png''), ''https://example.com/logo.png''),
           ((''https://example.com'', ''https://www.iana.org/domains/example''),
              ''https://www.iana.org/domains/example''),
           ((''https://example.com'', ''https://example.com.evil.com/x''),
              ''https://example.com.evil.com/x'') ] (base, ref)),
       get_tld = tabulated
         [ (''https://example.com/'', Some ''com''),
           (''http://unreachable.example/'', Some ''example'') ] \<rparr>"

definition plain_tag :: "string \<Rightarrow> tag" where
  "plain_tag n = \<lparr> tname = n, attrs = [], rel = [], tstring = None \<rparr>"

definition no_doc :: soup where
  "no_doc = \<lparr> soup_tags = [], soup_decode = [], soup_get_text = [] \<rparr>"

text \<open>A page with a title, a link to another site and an image of its own.\<close>

definition home_body :: string where
  "home_body = ''<html><head><title>Example Domain</title></head><body>''
     @ ''<a href='' @ [CHR 0x22] @ ''https://www.iana.org/domains/example'' @ [CHR 0x22] @ ''>More</a>''
     @ ''<img src='' @ [CHR 0x22] @ ''/logo.png'' @ [CHR 0x22] @ ''/></body></html>''"

definition home_doc :: soup where
  "home_doc =
     \<lparr> soup_tags =
         [ plain_tag ''html'', plain_tag ''head'',
           \<lparr> tname = ''title'', attrs = [], rel = [], tstring = Some ''Example Domain'' \<rparr>,
           plain_tag ''body'',
           \<lparr> tname = ''a'', attrs = [(''href'', ''https://www.iana.org/domains/example'')],
             rel = [], tstring = Some ''More'' \<rparr>,
           \<lparr> tname = ''img'', attrs = [(''src'', ''/logo.png'')], rel = [], tstring = None \<rparr> ],
       soup_decode = home_body,
       soup_get_text = ''Example DomainMore'' \<rparr>"

definition home_env :: env where
  "home_env = sample_env (Inr \<lparr> resp_text = home_body, status_code = 200, history = [] \<rparr>) home_doc"

text \<open>A page whose title tag is empty.\<close>

definition untitled_body :: string where
  "untitled_body = ''<html><head><title></title></head><body></body></html>''"

definition untitled_doc :: soup where
  "untitled_doc =
     \<lparr> soup_tags = [ plain_tag ''html'', plain_tag ''head'', plain_tag ''title'', plain_tag ''body'' ],
       soup_decode = untitled_body,
       soup_get_text = [] \<rparr>"

definition untitled_env :: env where
  "untitled_env =
     sample_env (Inr \<lparr> resp_text = untitled_body, status_code = 200, history = [] \<rparr>) untitled_doc"

text \<open>A page with one link, to a host whose name starts with the page's host.\<close>

definition lookalike_body :: string where
  "lookalike_body = ''<html><body><a href='' @ [CHR 0x22] @ ''https://example.com.evil.com/x''
     @ [CHR 0x22] @ ''>x</a></body></html>''"

definition lookalike_doc :: soup where
  "lookalike_doc =
     \<lparr> soup_tags =
         [ plain_tag ''html'', plain_tag ''body'',
           \<lparr> tname = ''a'', attrs = [(''href'', ''https://example.com.evil.com/x'')],
             rel = [], tstring = Some ''x'' \<rparr> ],
       soup_decode = lookalike_body,
       soup_get_text = ''x'' \<rparr>"

definition lookalike_env :: env where
  "lookalike_env =
     sample_env (Inr \<lparr> resp_text = lookalike_body, status_code = 200, history = [] \<rparr>) lookalike_doc"

text \<open>A host that refuses the connection, and a failure whose message is empty.\<close>

definition refused_env :: env where
  "refused_env = sample_env (Inl (Raised ''Connection refused'')) no_doc"

definition silent_env :: env where
  "silent_env = sample_env (Inl (Raised [])) no_doc"

text \<open>What the extractor returns for the first page, and for the silent failure.\<close>

definition home_features :: dict where
  "home_features =
     [ (''URLLength'', PInt 20), (''DomainLength'', PInt 11), (''TLDLength'', PInt 3),
       (''NoOfImage'', PInt 1), (''NoOfJS'', PInt 0), (''NoOfCSS'', PInt 0),
       (''NoOfSelfRef'', PInt 1), (''NoOfExternalRef'', PInt 1), (''IsHTTPS'', PInt 1),
       (''HasObfuscation'', PInt 0), (''HasTitle'', PInt 1), (''HasDescription'', PInt 0),
       (''HasSubmitButton'', PInt 0), (''HasSocialNet'', PInt 0), (''HasFavicon'', PInt 0),
       (''HasCopyrightInfo'', PInt 0), (''popUpWindow'', PInt 0), (''Iframe'', PInt 0),
       (''Abnormal_URL'', PInt 0), (''LetterToDigitRatio'', PFloat 75000),
       (''Redirect_0'', PInt 0), (''Redirect_1'', PInt 0) ]"

definition silent_features :: dict where
  "silent_features =
     [ (''URLLength'', PInt 27), (''DomainLength'', PInt 19), (''TLDLength'', PInt 7),
       (''NoOfImage'', PInt 0), (''NoOfJS'', PInt 0), (''NoOfCSS'', PInt 0),
       (''NoOfSelfRef'', PInt 0), (''NoOfExternalRef'', PInt 0), (''IsHTTPS'', PInt 0),
       (''HasObfuscation'', PInt 0), (''HasTitle'', PInt 0), (''HasDescription'', PInt 0),
       (''HasSubmitButton'', PInt 0), (''HasSocialNet'', PInt 0), (''HasFavicon'', PInt 0),
       (''HasCopyrightInfo'', PInt 0), (''popUpWindow'', PInt 0), (''Iframe'', PInt 0),
       (''Abnormal_URL'', PInt 0), (''LetterToDigitRatio'', PFloat (2200000 / 27)),
       (''Redirect_0'', PInt 1), (''Redirect_1'', PInt 0) ]"

text \<open>A scorer that gives the same probability for every row.\<close>

definition constant_scorer :: "rat \<Rightarrow> scorer" where
  "constant_scorer p row = Inr p"

section \<open>Basic facts\<close>

lemma then_do_Inr_iff: "then_do m f = Inr v \<longleftrightarrow> (\<exists>a. m = Inr a \<and> f a = Inr v)"
  by (cases m) (simp_all add: then_do_def)

lemma then_do_Inr [simp]: "then_do (Inr a) f = f a"
  by (simp add: then_do_def)

lemma then_do_Inl [simp]: "then_do (Inl e) f = Inl e"
  by (simp add: then_do_def)

lemma url_init [simp]: "url (init E u) = u"
  by (simp add: init_def Let_def split: sum.splits)

lemma error_init_failed:
  "requests_get E u = Inl e \<Longrightarrow> error (init E u) = Some (exn_str e)"
  by (simp add: init_def Let_def)

lemma soup_init_failed:
  "requests_get E u = Inl e \<Longrightarrow>
     soup (init E u) = None \<and> page_content (init E u) = None \<and> response (init E u) = None"
  by (simp add: init_def Let_def)

subsection \<open>The redirect value\<close>

lemma get_redirect_value_range: "get_redirect_value x \<in> {- 1, 0, 1}"
  by (simp add: get_redirect_value_def split: option.splits)

lemma redirect_vars_total:
  "redirect_vars (get_redirect_value x) = Inr (0, 0) \<or>
   redirect_vars (get_redirect_value x) = Inr (1, 0) \<or>
   redirect_vars (get_redirect_value x) = Inr (0, 1)"
  by (simp add: redirect_vars_def redirect_pair_def get_redirect_value_def split: option.splits)

subsection \<open>Letters and digits\<close>

lemma isalpha_not_isdigit: "isalpha c \<Longrightarrow> \<not> isdigit c"
  by (auto simp: isalpha_def isdigit_def Let_def)

lemma letters_digits_le: "length (filter isalpha u) + length (filter isdigit u) \<le> length u"
  by (induction u) (auto dest: isalpha_not_isdigit)

lemma digit_ratio_nonneg: "0 \<le> get_digit_ratio_in_url x"
  by (simp add: get_digit_ratio_in_url_def Let_def)

lemma letter_ratio_nonneg: "0 \<le> get_letter_ratio_in_url x"
  by (simp add: get_letter_ratio_in_url_def Let_def)

lemma letter_to_digit_ratio_eq:
  "letter_to_digit_ratio x
     = Inr (get_letter_ratio_in_url x / (get_digit_ratio_in_url x + 1 / 100000))"
  using digit_ratio_nonneg [of x] by (simp add: letter_to_digit_ratio_def py_div_def)

subsection \<open>The feature record\<close>

lemma extract_error:
  "truthy (error x) \<Longrightarrow> extract_model_features E x = Inr [(''error'', PStr (the (error x)))]"
  by (simp add: extract_model_features_def)

lemma extract_no_error:
  assumes "\<not> truthy (error x)" and "extract_model_features E x = Inr d"
  shows "map fst d = FEATURE_COLUMNS"
  using assms
  by (auto simp: extract_model_features_def then_do_Inr_iff FEATURE_COLUMNS_def)

lemma extract_error_key:
  assumes "extract_model_features E x = Inr d" and "''error'' \<notin> set (map fst d)"
  shows "\<not> truthy (error x)"
proof
  assume "truthy (error x)"
  then have "d = [(''error'', PStr (the (error x)))]"
    using assms(1) by (simp add: extract_error)
  with assms(2) show False by simp
qed

lemma extract_redirect_fields:
  assumes "\<not> truthy (error x)" and "extract_model_features E x = Inr d"
  shows "\<exists>r0 r1. redirect_vars (get_redirect_value x) = Inr (r0, r1) \<and>
           map_of d ''Redirect_0'' = Some (PInt r0) \<and> map_of d ''Redirect_1'' = Some (PInt r1)"
  using assms by (auto simp: extract_model_features_def then_do_Inr_iff)

lemma extract_ratio_field:
  assumes "\<not> truthy (error x)" and "extract_model_features E x = Inr d"
  shows "map_of d ''LetterToDigitRatio''
           = Some (PFloat (get_letter_ratio_in_url x / (get_digit_ratio_in_url x + 1 / 100000)))"
  using assms
  by (auto simp: extract_model_features_def then_do_Inr_iff letter_to_digit_ratio_eq)

lemma extract_returns:
  assumes "\<not> truthy (error x)"
    and "get_no_of_self_ref E x = Inr a" and "get_no_of_external_ref E x = Inr b"
    and "has_title x = Inr t"
  shows "\<exists>d. extract_model_features E x = Inr d"
  using assms redirect_vars_total [of x]
  by (auto simp: extract_model_features_def letter_to_digit_ratio_eq)

lemma no_soup_defaults:
  assumes "soup x = None"
  shows "get_no_of_self_ref E x = Inr 0" and "get_no_of_external_ref E x = Inr 0"
    and "has_title x = Inr 0" and "get_no_of_images x = 0" and "get_no_of_js x = 0"
    and "get_no_of_css x = 0" and "has_description x = 0" and "has_submit_button x = 0"
    and "has_social_net x = 0" and "has_favicon x = 0" and "has_copyright_info x = 0"
    and "has_iframe x = 0"
  using assms
  by (simp_all add: get_no_of_self_ref_def get_no_of_external_ref_def has_title_def
      get_no_of_images_def get_no_of_js_def get_no_of_css_def has_description_def
      has_submit_button_def has_social_net_def has_favicon_def has_copyright_info_def
      has_iframe_def)

lemma no_content_defaults:
  assumes "page_content x = None"
  shows "has_obfuscation x = 0" and "has_popup_window x = 0"
  using assms by (simp_all add: has_obfuscation_def has_popup_window_def truthy_def)

subsection \<open>Rounding\<close>

lemma py_round_unit:
  assumes "0 \<le> p" and "p \<le> 1"
  shows "py_round p = (if 1 / 2 < p then 1 else 0)"
proof (cases "p = 1")
  case True
  then show ?thesis by (simp add: py_round_def)
next
  case False
  with assms have "\<lfloor>p\<rfloor> = 0" by (simp add: floor_eq_iff)
  then show ?thesis by (simp add: py_round_def Let_def)
qed

subsection \<open>Searching\<close>

lemma re_search_Lit: "re_search (Lit c) s \<longleftrightarrow> c \<in> set s"
  by (induction s) auto

lemma abnormal_empty: "\<not> (\<exists>p\<in>set abnormal_patterns. re_search p [])"
  by (simp add: abnormal_patterns_def Plus_def)

lemma is_abnormal_url_iff:
  "is_abnormal_url x = (if \<exists>p\<in>set abnormal_patterns. re_search p (url x) then 1 else 0)"
  using abnormal_empty by (auto simp: is_abnormal_url_def list_ex_iff)

subsection \<open>The sample pages, evaluated\<close>

lemma home_extract:
  "extract_model_features home_env (init home_env ''https://example.com/'') = Inr home_features"
  by code_simp

lemma home_parts:
  "error (init home_env ''https://example.com/'') = None"
  "get_no_of_self_ref home_env (init home_env ''https://example.com/'') = Inr 1"
  "get_no_of_external_ref home_env (init home_env ''https://example.com/'') = Inr 1"
  "has_title (init home_env ''https://example.com/'') = Inr 1"
  by code_simp+

lemma refused_get:
  "requests_get refused_env ''http://unreachable.example/'' = Inl (Raised ''Connection refused'')"
  by (simp add: refused_env_def sample_env_def)

lemma silent_get:
  "requests_get silent_env ''http://unreachable.example/'' = Inl (Raised [])"
  by (simp add: silent_env_def sample_env_def)

lemma silent_extract:
  "extract_model_features silent_env (init silent_env ''http://unreachable.example/'')
     = Inr silent_features"
  by code_simp

section \<open>The feature record has the training-time columns\<close>

text \<open>
  C1. The claim is that \<open>extract_model_features\<close> returns the 22 fields of
  \<open>FEATURE_COLUMNS\<close>, in that order, for every URL and every outcome of the fetch.
  The function starts with a guard: when the fetch recorded an error message it returns
  the one-field record \<open>{"error": message}\<close>. What holds is this. With an error
  message recorded, the result is that one-field record. With none recorded, every
  record the function returns has exactly the 22 fields of \<open>FEATURE_COLUMNS\<close>, in
  that order and without a repeated name; it does return one whenever the two reference
  counters and \<open>has_title\<close> return, and always when there is no document.
\<close>

theorem extract_model_features_columns:
  "(truthy (error x) \<longrightarrow> extract_model_features E x = Inr [(''error'', PStr (the (error x)))]) \<and>
   (\<not> truthy (error x) \<longrightarrow>
      (\<forall>d. extract_model_features E x = Inr d \<longrightarrow>
           map fst d = FEATURE_COLUMNS \<and> length d = 22 \<and> distinct (map fst d)) \<and>
      ((\<exists>a b t. get_no_of_self_ref E x = Inr a \<and> get_no_of_external_ref E x = Inr b
                 \<and> has_title x = Inr t) \<longrightarrow> (\<exists>d. extract_model_features E x = Inr d)) \<and>
      (soup x = None \<longrightarrow> (\<exists>d. extract_model_features E x = Inr d)))"
proof (intro conjI impI allI)
  assume "truthy (error x)"
  then show "extract_model_features E x = Inr [(''error'', PStr (the (error x)))]"
    by (rule extract_error)
next
  fix d
  assume n: "\<not> truthy (error x)" and e: "extract_model_features E x = Inr d"
  then have m: "map fst d = FEATURE_COLUMNS" by (rule extract_no_error)
  then show "map fst d = FEATURE_COLUMNS" .
  from m have "length (map fst d) = 22" by (simp add: FEATURE_COLUMNS_def)
  then show "length d = 22" by simp
  from m show "distinct (map fst d)" by (simp add: FEATURE_COLUMNS_def)
next
  assume "\<not> truthy (error x)"
    and "\<exists>a b t. get_no_of_self_ref E x = Inr a \<and> get_no_of_external_ref E x = Inr b
                 \<and> has_title x = Inr t"
  then show "\<exists>d. extract_model_features E x = Inr d"
    by (auto intro: extract_returns)
next
  assume "\<not> truthy (error x)" and "soup x = None"
  then show "\<exists>d. extract_model_features E x = Inr d"
    by (auto intro: extract_returns dest: no_soup_defaults(1-3))
qed

text \<open>
  A refused connection: the record has the single field \<open>error\<close>, which is not the
  list of columns.
\<close>

theorem extract_model_features_refused_counterexample:
  "extract_model_features refused_env (init refused_env ''http://unreachable.example/'')
     = Inr [(''error'', PStr ''Connection refused'')] \<and>
   map fst [(''error'', PStr ''Connection refused'')] \<noteq> FEATURE_COLUMNS"
  by code_simp

text \<open>
  The three cases of the theorem at the sample pages: the refused connection, the
  first page, and the failure with an empty message (no document).
\<close>

theorem extract_model_features_columns_witness:
  "truthy (error (init refused_env ''http://unreachable.example/'')) \<and>
   extract_model_features refused_env (init refused_env ''http://unreachable.example/'')
     = Inr [(''error'', PStr ''Connection refused'')] \<and>
   \<not> truthy (error (init home_env ''https://example.com/'')) \<and>
   get_no_of_self_ref home_env (init home_env ''https://example.com/'') = Inr 1 \<and>
   get_no_of_external_ref home_env (init home_env ''https://example.com/'') = Inr 1 \<and>
   has_title (init home_env ''https://example.com/'') = Inr 1 \<and>
   extract_model_features home_env (init home_env ''https://example.com/'') = Inr home_features \<and>
   map fst home_features = FEATURE_COLUMNS \<and> length home_features = 22 \<and>
   \<not> truthy (error (init silent_env ''http://unreachable.example/'')) \<and>
   soup (init silent_env ''http://unreachable.example/'') = None \<and>
   extract_model_features silent_env (init silent_env ''http://unreachable.example/'')
     = Inr silent_features \<and>
   map fst silent_features = FEATURE_COLUMNS"
proof -
  let ?r = "init refused_env ''http://unreachable.example/''"
  let ?h = "init home_env ''https://example.com/''"
  let ?s = "init silent_env ''http://unreachable.example/''"
  have r1: "error ?r = Some ''Connection refused''"
    using error_init_failed [OF refused_get] by (simp add: exn_str_def)
  then have r2: "truthy (error ?r)" by (simp add: truthy_def)
  have r3: "extract_model_features refused_env ?r = Inr [(''error'', PStr ''Connection refused'')]"
    using extract_model_features_columns [of ?r refused_env] r1 r2 by simp
  have h1: "\<not> truthy (error ?h)" by (simp add: home_parts truthy_def)
  have h2: "map fst home_features = FEATURE_COLUMNS \<and> length home_features = 22"
    using extract_model_features_columns [of ?h home_env] h1 home_extract by blast
  have s1: "\<not> truthy (error ?s)"
    using error_init_failed [OF silent_get] by (simp add: exn_str_def truthy_def)
  have s2: "soup ?s = None" using soup_init_failed [OF silent_get] by simp
  have s3: "map fst silent_features = FEATURE_COLUMNS"
    using extract_model_features_columns [of ?s silent_env] s1 silent_extract by blast
  from r2 r3 h1 h2 s1 s2 s3 home_parts(2-4) home_extract silent_extract
  show ?thesis by blast
qed

section \<open>A failed fetch\<close>

text \<open>
  C2. The claim is that a URL whose fetch fails still gets a verdict, from a full
  feature record with every content-derived field 0 and the redirect pair (0,0), and
  that the failure never reaches the caller as an error. The guard of
  \<open>extract_model_features\<close> and the check for the \<open>error\<close> key in
  \<open>predict_from_url\<close> do otherwise. What holds is this. When the fetch fails with a
  message that is not empty, \<open>extract_model_features\<close> returns \<open>{"error": message}\<close>
  and \<open>predict_from_url\<close> answers \<open>{"error": message}\<close>, whatever the scorer. When
  the message is empty, the full record of 22 fields is returned, and each of its 14
  content-derived fields is 0.
\<close>

theorem fetch_failure_surfaced:
  assumes "requests_get E u = Inl e"
  shows "(exn_str e \<noteq> [] \<longrightarrow>
            extract_model_features E (init E u) = Inr [(''error'', PStr (exn_str e))] \<and>
            predict_from_url E S u = [(''error'', PStr (exn_str e))]) \<and>
         (exn_str e = [] \<longrightarrow>
            (\<exists>d. extract_model_features E (init E u) = Inr d \<and> map fst d = FEATURE_COLUMNS \<and>
                 (\<forall>k\<in>set [''NoOfImage'', ''NoOfJS'', ''NoOfCSS'', ''NoOfSelfRef'',
                     ''NoOfExternalRef'', ''HasObfuscation'', ''HasTitle'', ''HasDescription'',
                     ''HasSubmitButton'', ''HasSocialNet'', ''HasFavicon'', ''HasCopyrightInfo'',
                     ''popUpWindow'', ''Iframe'']. map_of d k = Some (PInt 0))))"
proof (intro conjI impI)
  assume m: "exn_str e \<noteq> []"
  with assms have t: "truthy (error (init E u))" and v: "the (error (init E u)) = exn_str e"
    by (simp_all add: error_init_failed truthy_def)
  then show x: "extract_model_features E (init E u) = Inr [(''error'', PStr (exn_str e))]"
    by (simp add: extract_error)
  then show "predict_from_url E S u = [(''error'', PStr (exn_str e))]"
    by (simp add: predict_from_url_def)
next
  assume m: "exn_str e = []"
  let ?x = "init E u"
  from assms m have t: "\<not> truthy (error ?x)"
    by (simp add: error_init_failed truthy_def)
  from assms have s: "soup ?x = None" and c: "page_content ?x = None"
    by (simp_all add: soup_init_failed)
  note z = no_soup_defaults [OF s] no_content_defaults [OF c]
  from redirect_vars_total [of ?x] t
  show "\<exists>d. extract_model_features E ?x = Inr d \<and> map fst d = FEATURE_COLUMNS \<and>
                 (\<forall>k\<in>set [''NoOfImage'', ''NoOfJS'', ''NoOfCSS'', ''NoOfSelfRef'',
                     ''NoOfExternalRef'', ''HasObfuscation'', ''HasTitle'', ''HasDescription'',
                     ''HasSubmitButton'', ''HasSocialNet'', ''HasFavicon'', ''HasCopyrightInfo'',
                     ''popUpWindow'', ''Iframe'']. map_of d k = Some (PInt 0))"
    by (auto simp: extract_model_features_def letter_to_digit_ratio_eq z FEATURE_COLUMNS_def)
qed

text \<open>A refused connection reaches the caller as an error, with no verdict.\<close>

theorem fetch_failure_verdict_counterexample:
  "requests_get refused_env ''http://unreachable.example/'' = Inl (Raised ''Connection refused'') \<and>
   predict_from_url refused_env (constant_scorer (9 / 10)) ''http://unreachable.example/''
     = [(''error'', PStr ''Connection refused'')]"
  by code_simp

text \<open>Both cases of the theorem: the refused connection and the empty message.\<close>

theorem fetch_failure_surfaced_witness:
  "requests_get refused_env ''http://unreachable.example/'' = Inl (Raised ''Connection refused'') \<and>
   exn_str (Raised ''Connection refused'') \<noteq> [] \<and>
   extract_model_features refused_env (init refused_env ''http://unreachable.example/'')
     = Inr [(''error'', PStr ''Connection refused'')] \<and>
   predict_from_url refused_env (constant_scorer (9 / 10)) ''http://unreachable.example/''
     = [(''error'', PStr ''Connection refused'')] \<and>
   requests_get silent_env ''http://unreachable.example/'' = Inl (Raised []) \<and>
   exn_str (Raised []) = [] \<and>
   extract_model_features silent_env (init silent_env ''http://unreachable.example/'')
     = Inr silent_features \<and>
   map_of silent_features ''HasTitle'' = Some (PInt 0) \<and>
   map_of silent_features ''NoOfExternalRef'' = Some (PInt 0) \<and>
   map_of silent_features ''Iframe'' = Some (PInt 0)"
proof -
  have a: "exn_str (Raised ''Connection refused'') = ''Connection refused''"
    and b: "exn_str (Raised []) = []"
    by (simp_all add: exn_str_def)
  note r = fetch_failure_surfaced [OF refused_get, of "constant_scorer (9 / 10)"]
  note s = fetch_failure_surfaced [OF silent_get, of "constant_scorer (9 / 10)"]
  from s b obtain d where d: "extract_model_features silent_env
        (init silent_env ''http://unreachable.example/'') = Inr d"
    and z: "\<forall>k\<in>set [''NoOfImage'', ''NoOfJS'', ''NoOfCSS'', ''NoOfSelfRef'',
                     ''NoOfExternalRef'', ''HasObfuscation'', ''HasTitle'', ''HasDescription'',
                     ''HasSubmitButton'', ''HasSocialNet'', ''HasFavicon'', ''HasCopyrightInfo'',
                     ''popUpWindow'', ''Iframe'']. map_of d k = Some (PInt 0)"
    by blast
  from d silent_extract have "d = silent_features" by simp
  with z have "map_of silent_features ''HasTitle'' = Some (PInt 0)"
    and "map_of silent_features ''NoOfExternalRef'' = Some (PInt 0)"
    and "map_of silent_features ''Iframe'' = Some (PInt 0)"
    by simp_all
  with r a b refused_get silent_get silent_extract show ?thesis by simp
qed

section \<open>The redirect state\<close>

text \<open>
  C3. The claim, and the docstring of \<open>get_redirect_value\<close>, say: -1 when there is no
  response, 0 when a response came without a redirect, 1 when it came after redirects;
  and the record maps -1 to (0,0), 0 to (1,0), 1 to (0,1). The mapping is as claimed.
  The function is not: a page answered with status 200 and no redirect gets -1, and an
  extractor without a response gets 0.
\<close>

theorem get_redirect_value_swapped:
  "response (init home_env ''https://example.com/'')
     = Some \<lparr> resp_text = home_body, status_code = 200, history = [] \<rparr> \<and>
   get_redirect_value (init home_env ''https://example.com/'') = - 1 \<and>
   response (init refused_env ''http://unreachable.example/'') = None \<and>
   get_redirect_value (init refused_env ''http://unreachable.example/'') = 0 \<and>
   redirect_pair (- 1) = Some (0, 0) \<and> redirect_pair 0 = Some (1, 0) \<and>
   redirect_pair 1 = Some (0, 1)"
  by code_simp

text \<open>
  C4. In every feature record that \<open>extract_model_features\<close> returns, the pair
  (Redirect_0, Redirect_1) is (0,0), (1,0) or (0,1), never (1,1):
  \<open>get_redirect_value\<close> only returns -1, 0 or 1, and the chain assigns both
  variables for each of them.
\<close>

theorem redirect_one_hot:
  "get_redirect_value x \<in> {- 1, 0, 1} \<and>
   redirect_pair (get_redirect_value x) \<in> {Some (0, 0), Some (1, 0), Some (0, 1)} \<and>
   (\<forall>d. extract_model_features E x = Inr d \<and> ''error'' \<notin> set (map fst d) \<longrightarrow>
      (map_of d ''Redirect_0'', map_of d ''Redirect_1'') \<in>
        {(Some (PInt 0), Some (PInt 0)), (Some (PInt 1), Some (PInt 0)),
         (Some (PInt 0), Some (PInt 1))})"
proof (intro conjI allI impI)
  show "get_redirect_value x \<in> {- 1, 0, 1}" by (rule get_redirect_value_range)
  show "redirect_pair (get_redirect_value x) \<in> {Some (0, 0), Some (1, 0), Some (0, 1)}"
    by (simp add: redirect_pair_def get_redirect_value_def split: option.splits)
next
  fix d
  assume a: "extract_model_features E x = Inr d \<and> ''error'' \<notin> set (map fst d)"
  then have "\<not> truthy (error x)" by (auto dest: extract_error_key)
  with a obtain r0 r1 where r: "redirect_vars (get_redirect_value x) = Inr (r0, r1)"
    and l: "map_of d ''Redirect_0'' = Some (PInt r0)" "map_of d ''Redirect_1'' = Some (PInt r1)"
    using extract_redirect_fields by blast
  from r redirect_vars_total [of x] have "(r0, r1) \<in> {(0, 0), (1, 0), (0, 1)}" by auto
  then show "(map_of d ''Redirect_0'', map_of d ''Redirect_1'') \<in>
        {(Some (PInt 0), Some (PInt 0)), (Some (PInt 1), Some (PInt 0)),
         (Some (PInt 0), Some (PInt 1))}"
    by (auto simp: l)
qed

text \<open>The first page: a feature record, with the pair (0,0).\<close>

theorem redirect_one_hot_witness:
  "extract_model_features home_env (init home_env ''https://example.com/'') = Inr home_features \<and>
   ''error'' \<notin> set (map fst home_features) \<and>
   (map_of home_features ''Redirect_0'', map_of home_features ''Redirect_1'')
     = (Some (PInt 0), Some (PInt 0)) \<and>
   (map_of home_features ''Redirect_0'', map_of home_features ''Redirect_1'') \<in>
     {(Some (PInt 0), Some (PInt 0)), (Some (PInt 1), Some (PInt 0)),
      (Some (PInt 0), Some (PInt 1))}"
proof -
  have k: "''error'' \<notin> set (map fst home_features)" by (simp add: home_features_def)
  have v: "(map_of home_features ''Redirect_0'', map_of home_features ''Redirect_1'')
     = (Some (PInt 0), Some (PInt 0))" by (simp add: home_features_def)
  from redirect_one_hot [of "init home_env ''https://example.com/''" home_env] home_extract k
  have "(map_of home_features ''Redirect_0'', map_of home_features ''Redirect_1'') \<in>
     {(Some (PInt 0), Some (PInt 0)), (Some (PInt 1), Some (PInt 0)),
      (Some (PInt 0), Some (PInt 1))}" by blast
  with home_extract k v show ?thesis by blast
qed

section \<open>The ratio of letters to digits\<close>

text \<open>
  C5. The field LetterToDigitRatio is the letter ratio divided by the digit ratio plus
  1e-5, the letter ratio on top. The divisor is never zero, so the division never
  raises; for a URL without a digit the value is the letter ratio times 100000. (The
  arithmetic is that of the rationals.)
\<close>

theorem letter_to_digit_ratio_defined:
  "letter_to_digit_ratio x
     = Inr (get_letter_ratio_in_url x / (get_digit_ratio_in_url x + 1 / 100000)) \<and>
   get_digit_ratio_in_url x + 1 / 100000 \<noteq> 0 \<and>
   letter_to_digit_ratio x \<noteq> Inl ZeroDivisionError \<and>
   ((\<forall>c\<in>set (url x). \<not> isdigit c) \<longrightarrow>
      letter_to_digit_ratio x = Inr (get_letter_ratio_in_url x * 100000)) \<and>
   (\<forall>d. extract_model_features E x = Inr d \<and> ''error'' \<notin> set (map fst d) \<longrightarrow>
      map_of d ''LetterToDigitRatio''
        = Some (PFloat (get_letter_ratio_in_url x / (get_digit_ratio_in_url x + 1 / 100000))))"
proof (intro conjI allI impI)
  show eq: "letter_to_digit_ratio x
     = Inr (get_letter_ratio_in_url x / (get_digit_ratio_in_url x + 1 / 100000))"
    by (rule letter_to_digit_ratio_eq)
  then show "letter_to_digit_ratio x \<noteq> Inl ZeroDivisionError" by simp
  show "get_digit_ratio_in_url x + 1 / 100000 \<noteq> 0"
    using digit_ratio_nonneg [of x] by simp
  {
    assume "\<forall>c\<in>set (url x). \<not> isdigit c"
    then have "filter isdigit (url x) = []" by (simp add: filter_empty_conv)
    then have "get_digit_ratio_in_url x = 0" by (simp add: get_digit_ratio_in_url_def)
    with eq show "letter_to_digit_ratio x = Inr (get_letter_ratio_in_url x * 100000)" by simp
  }
next
  fix d
  assume a: "extract_model_features E x = Inr d \<and> ''error'' \<notin> set (map fst d)"
  then have "\<not> truthy (error x)" by (auto dest: extract_error_key)
  with a show "map_of d ''LetterToDigitRatio''
        = Some (PFloat (get_letter_ratio_in_url x / (get_digit_ratio_in_url x + 1 / 100000)))"
    by (auto intro: extract_ratio_field)
qed

text \<open>
  The URL \<open>https://example\<close> has 12 letters among 15 characters and no digit: the
  value is 80000. The first page's record holds the quotient for its URL, 75000.
\<close>

theorem letter_to_digit_ratio_defined_witness:
  "filter isdigit (url (init home_env ''https://example'')) = [] \<and>
   letter_to_digit_ratio (init home_env ''https://example'') = Inr 80000 \<and>
   extract_model_features home_env (init home_env ''https://example.com/'') = Inr home_features \<and>
   ''error'' \<notin> set (map fst home_features) \<and>
   map_of home_features ''LetterToDigitRatio'' = Some (PFloat 75000)"
proof -
  let ?x = "init home_env ''https://example''"
  have n: "\<forall>c\<in>set (url ?x). \<not> isdigit c"
    by (simp add: isdigit_def code_def)
  have l: "get_letter_ratio_in_url ?x = 4 / 5"
    by (simp add: get_letter_ratio_in_url_def isalpha_def code_def)
  from letter_to_digit_ratio_defined [of ?x home_env] n
  have "letter_to_digit_ratio ?x = Inr (get_letter_ratio_in_url ?x * 100000)" by blast
  then have v: "letter_to_digit_ratio ?x = Inr 80000" by (simp add: l)
  have k: "''error'' \<notin> set (map fst home_features)" by (simp add: home_features_def)
  have f: "map_of home_features ''LetterToDigitRatio'' = Some (PFloat 75000)"
    by (simp add: home_features_def)
  from n have e: "filter isdigit (url ?x) = []" by (simp only: filter_empty_conv)
  from e v home_extract k f show ?thesis by blast
qed



section \<open>Abnormal URLs\<close>



section \<open>The title\<close>

text \<open>
  C7. The claim is that \<open>has_title\<close> never raises, and is 1 exactly when a title tag
  with text other than whitespace exists. On a page whose title tag is empty the tag's
  \<open>.string\<close> is \<open>None\<close>, and the call of \<open>strip\<close> on it raises AttributeError;
  \<open>extract_model_features\<close> raises with it.
\<close>

theorem has_title_raises:
  "title untitled_doc = Some (plain_tag ''title'') \<and>
   tstring (plain_tag ''title'') = None \<and>
   has_title (init untitled_env ''https://example.com/'') = Inl AttributeError \<and>
   extract_model_features untitled_env (init untitled_env ''https://example.com/'')
     = Inl AttributeError"
  by code_simp

section \<open>References to the page's own site and to others\<close>

text \<open>
  C8. The claim is that a reference counts as the page's own exactly when it resolves
  to the page's scheme and host, and as external when it resolves to another host. Both
  counters compare by prefix: on the page \<open>https://example.com/\<close>, the link to
  \<open>https://example.com.evil.com/x\<close> starts with \<open>https://example.com\<close>, so it is
  counted as the page's own and not as external.
\<close>

theorem lookalike_host_counted_self:
  "base_url_of \<lparr> scheme = ''https'', netloc = ''example.com'' \<rparr> = ''https://example.com'' \<and>
   urljoin lookalike_env ''https://example.com'' ''https://example.com.evil.com/x''
     = Inr ''https://example.com.evil.com/x'' \<and>
   get_no_of_self_ref lookalike_env (init lookalike_env ''https://example.com/'') = Inr 1 \<and>
   get_no_of_external_ref lookalike_env (init lookalike_env ''https://example.com/'') = Inr 0"
  by code_simp

section \<open>From the probability to the label\<close>

text \<open>
  C9. The claim is that the label is Legitimate exactly when the probability rounds to
  1 with ties rounded up, so that 0.5 gives Legitimate. The endpoints call Python's
  \<open>round\<close>, which sends a tie to the even integer: 0.5 rounds to 0. What holds is
  this. For a probability \<open>p\<close> between 0 and 1, both endpoints answer with the label
  1 and Legitimate exactly when \<open>p\<close> is greater than 0.5, and with 0 and Phishing
  otherwise; 0.5 gives Phishing.
\<close>

theorem label_of_probability:
  assumes "0 \<le> p" and "p \<le> 1"
  shows "(S (data_frame features FEATURE_COLUMNS) = Inr p \<longrightarrow>
            predict S features =
              [ (''prediction'', PInt (if 1 / 2 < p then 1 else 0)),
                (''result'', PStr (if 1 / 2 < p then ''Legitimate'' else ''Phishing'')) ]) \<and>
         (\<forall>f. extract_model_features E (init E u) = Inr f \<and> ''error'' \<notin> set (map fst f)
               \<and> S (data_frame f FEATURE_COLUMNS) = Inr p \<longrightarrow>
            predict_from_url E S u =
              [ (''features'', PDict f),
                (''prediction'', PInt (if 1 / 2 < p then 1 else 0)),
                (''result'', PStr (if 1 / 2 < p then ''Legitimate'' else ''Phishing'')) ])"
  using py_round_unit [OF assms]
  by (simp add: predict_def predict_from_url_def result_of_def Let_def)

text \<open>The probability 0.5 gives the label 0, Phishing.\<close>

theorem half_probability_counterexample:
  "constant_scorer (1 / 2) (data_frame home_features FEATURE_COLUMNS) = Inr (1 / 2) \<and>
   py_round (1 / 2) = 0 \<and>
   predict (constant_scorer (1 / 2)) home_features
     = [(''prediction'', PInt 0), (''result'', PStr ''Phishing'')]"
  by code_simp

text \<open>The first page under a scorer that gives 0.9, and under one that gives 0.5.\<close>

theorem label_of_probability_witness:
  "(0::rat) \<le> 9 / 10 \<and> (9 / 10 :: rat) \<le> 1 \<and>
   constant_scorer (9 / 10) (data_frame home_features FEATURE_COLUMNS) = Inr (9 / 10) \<and>
   predict (constant_scorer (9 / 10)) home_features
     = [(''prediction'', PInt 1), (''result'', PStr ''Legitimate'')] \<and>
   extract_model_features home_env (init home_env ''https://example.com/'') = Inr home_features \<and>
   ''error'' \<notin> set (map fst home_features) \<and>
   predict_from_url home_env (constant_scorer (9 / 10)) ''https://example.com/''
     = [(''features'', PDict home_features), (''prediction'', PInt 1),
        (''result'', PStr ''Legitimate'')] \<and>
   predict_from_url home_env (constant_scorer (1 / 2)) ''https://example.com/''
     = [(''features'', PDict home_features), (''prediction'', PInt 0),
        (''result'', PStr ''Phishing'')]"
proof -
  have a: "(0::rat) \<le> 9 / 10" and b: "(9 / 10 :: rat) \<le> 1"
    and c: "(0::rat) \<le> 1 / 2" and d: "(1 / 2 :: rat) \<le> 1" by simp_all
  have s: "constant_scorer q row = Inr q" for q row by (simp add: constant_scorer_def)
  have k: "''error'' \<notin> set (map fst home_features)" by (simp add: home_features_def)
  note hi = label_of_probability [OF a b, of "constant_scorer (9 / 10)" home_features
      home_env "''https://example.com/''"]
  note lo = label_of_probability [OF c d, of "constant_scorer (1 / 2)" home_features
      home_env "''https://example.com/''"]
  from hi lo s k home_extract show ?thesis by simp
qed

end
